theory Spec2Isabelle
  imports Main
begin

section \<open>JavaScript values\<close>

text \<open>
  The client is TypeScript whose values are untyped at run time (\<open>any\<close>): JSON bodies,
  query parameter records and error payloads. They are modelled by one datatype.
  Numbers are restricted to integers. A \<open>JDate s\<close> is a \<open>Date\<close> object whose
  \<open>toString()\<close> returns \<open>s\<close>. A \<open>JPromise (Some v)\<close> is a promise that fulfils with
  \<open>v\<close>, a \<open>JPromise None\<close> one that rejects. Objects keep their keys in insertion order.
\<close>

datatype jsval =
    JUndefined
  | JNull
  | JBool bool
  | JNum int
  | JStr string
  | JDate string
  | JArr "jsval list"
  | JObj "(string \<times> jsval) list"
  | JPromise "jsval option"

text \<open>Truthiness, as used by \<open>||\<close>, \<open>&&\<close> and \<open>if\<close>.\<close>

fun truthy :: "jsval \<Rightarrow> bool" where
  "truthy JUndefined = False"
| "truthy JNull = False"
| "truthy (JBool b) = b"
| "truthy (JNum n) = (n \<noteq> 0)"
| "truthy (JStr s) = (s \<noteq> [])"
| "truthy (JDate s) = True"
| "truthy (JArr xs) = True"
| "truthy (JObj kvs) = True"
| "truthy (JPromise p) = True"

definition js_or :: "jsval \<Rightarrow> jsval \<Rightarrow> jsval" where
  "js_or a b = (if truthy a then a else b)"

text \<open>
  Reading a data property. A promise, a date, an array and a primitive have no property
  called \<open>message\<close>, \<open>error\<close> or \<open>errors\<close> (the only names read below), so the read gives
  \<open>undefined\<close>. The client never reads a property of \<open>undefined\<close> or \<open>null\<close>.
\<close>

fun get_prop :: "jsval \<Rightarrow> string \<Rightarrow> jsval" where
  "get_prop (JObj kvs) k = (case map_of kvs k of Some v \<Rightarrow> v | None \<Rightarrow> JUndefined)"
| "get_prop v k = JUndefined"

text \<open>Decimal text of a number, and \<open>String(v)\<close>.\<close>

definition digit_char :: "nat \<Rightarrow> char" where
  "digit_char d = char_of (48 + d)"

fun show_nat :: "nat \<Rightarrow> string" where
  "show_nat n = (if n < 10 then [digit_char n] else show_nat (n div 10) @ [digit_char (n mod 10)])"

declare show_nat.simps [simp del]

definition show_int :: "int \<Rightarrow> string" where
  "show_int i = (if i < 0 then CHR ''-'' # show_nat (nat (- i)) else show_nat (nat i))"

fun join_comma :: "string list \<Rightarrow> string" where
  "join_comma [] = []"
| "join_comma [s] = s"
| "join_comma (s # t # ts) = s @ '','' @ join_comma (t # ts)"

fun to_string :: "jsval \<Rightarrow> string" where
  "to_string JUndefined = ''undefined''"
| "to_string JNull = ''null''"
| "to_string (JBool b) = (if b then ''true'' else ''false'')"
| "to_string (JNum n) = show_int n"
| "to_string (JStr s) = s"
| "to_string (JDate s) = s"
| "to_string (JArr xs) =
     join_comma (map (\<lambda>x. if x = JUndefined \<or> x = JNull then [] else to_string x) xs)"
| "to_string (JObj kvs) = ''[object Object]''"
| "to_string (JPromise p) = ''[object Promise]''"

section \<open>Exceptions\<close>

text \<open>
  \<open>ApiException extends Error\<close> with the fields \<open>statusCode\<close> and \<open>errors\<close>; the four other
  classes extend it and fix the status code in their constructors. \<open>new Error(message)\<close>
  stores \<open>String(message)\<close>, and the empty text for \<open>undefined\<close>.
\<close>

record exception =
  name :: string
  message :: string
  statusCode :: "nat option"
  errors :: jsval

definition Error_message :: "jsval \<Rightarrow> string" where
  "Error_message m = (if m = JUndefined then [] else to_string m)"

definition new_ApiException :: "jsval \<Rightarrow> nat option \<Rightarrow> jsval \<Rightarrow> exception" where
  "new_ApiException msg code errs =
     \<lparr>name = ''ApiException'', message = Error_message msg, statusCode = code, errors = errs\<rparr>"

definition new_ValidationException :: "jsval \<Rightarrow> jsval \<Rightarrow> exception" where
  "new_ValidationException msg errs =
     (new_ApiException msg (Some 422) errs)\<lparr>name := ''ValidationException''\<rparr>"

definition new_AuthenticationException :: "jsval \<Rightarrow> exception" where
  "new_AuthenticationException msg =
     (new_ApiException msg (Some 401) JUndefined)\<lparr>name := ''AuthenticationException''\<rparr>"

definition new_NotFoundException :: "jsval \<Rightarrow> exception" where
  "new_NotFoundException msg =
     (new_ApiException msg (Some 404) JUndefined)\<lparr>name := ''NotFoundException''\<rparr>"

definition new_ServerException :: "jsval \<Rightarrow> exception" where
  "new_ServerException msg =
     (new_ApiException msg (Some 500) JUndefined)\<lparr>name := ''ServerException''\<rparr>"

section \<open>Responses and thrown values\<close>

text \<open>
  A response of the HTTP backend: its status line, the value its body denotes as JSON
  (\<open>None\<close> when the body is not JSON), and, for a streamed body, the text chunks the reader
  delivers followed by the end of the body (\<open>None\<close>) or a failing read (the name and
  message of the error). \<open>body = None\<close> is a response without a body.
\<close>

record response =
  status :: nat
  statusText :: string
  payload :: "jsval option"
  body :: "(string list \<times> (string \<times> string) option) option"

definition ok :: "response \<Rightarrow> bool" where
  "ok r = (200 \<le> status r \<and> status r < 300)"

text \<open>
  \<open>Response.json()\<close> of the Fetch standard is asynchronous: the call itself does not throw,
  it returns a promise at once, which later fulfils with the parsed body or rejects.
  The result is \<open>Inr\<close> of the returned value; \<open>Inl\<close> would be a synchronous throw.
\<close>

definition response_json :: "response \<Rightarrow> (string \<times> string) + jsval" where
  "response_json r = Inr (JPromise (payload r))"

text \<open>
  What a \<open>catch\<close> clause of the client can receive: the backend's \<open>HTTPError\<close> with
  its response, an exception of the client's own classes, or any other error, given by
  its \<open>name\<close> and \<open>message\<close>. The message of an \<open>HTTPError\<close> is never read by the
  client.
\<close>

datatype thrown =
    HTTPError response
  | Sdk exception
  | OtherError string string

fun error_name :: "thrown \<Rightarrow> string" where
  "error_name (HTTPError r) = ''HTTPError''"
| "error_name (Sdk e) = name e"
| "error_name (OtherError n m) = n"

fun error_message :: "thrown \<Rightarrow> string" where
  "error_message (HTTPError r) = ''Request failed with status code '' @ show_nat (status r)"
| "error_message (Sdk e) = message e"
| "error_message (OtherError n m) = m"

text \<open>\<open>await v\<close>: the value a promise fulfils with, or the rejection thrown at the await.\<close>

fun await :: "jsval \<Rightarrow> thrown + jsval" where
  "await (JPromise (Some v)) = Inr v"
| "await (JPromise None) = Inl (OtherError ''SyntaxError'' ''Unexpected token in JSON'')"
| "await v = Inr v"

section \<open>Error classification\<close>

text \<open>
  \<open>handleError(error, endpoint): never\<close>. The result is the value it throws. The
  \<open>try\<close> around \<open>error.response.json()\<close> catches a synchronous throw only; the call is
  not awaited, so \<open>errorData\<close> is the value the call returns.
\<close>

definition handleError :: "thrown \<Rightarrow> string \<Rightarrow> thrown" where
  "handleError error endpoint =
    (if error_name error = ''HTTPError'' then
       (case error of
          HTTPError r \<Rightarrow>
            (let st = status r;
                 errorData = (case response_json r of
                                Inr v \<Rightarrow> v
                              | Inl e \<Rightarrow> JObj [(''message'', JStr (statusText r))]);
                 msg = js_or (get_prop errorData ''message'')
                         (js_or (get_prop errorData ''error'') (JStr ''Unknown API error''))
             in if st = 400 \<or> st = 422 then
                  Sdk (new_ValidationException msg (get_prop errorData ''errors''))
                else if st = 401 \<or> st = 403 then Sdk (new_AuthenticationException msg)
                else if st = 404 then Sdk (new_NotFoundException msg)
                else if st \<ge> 500 then Sdk (new_ServerException msg)
                else Sdk (new_ApiException msg (Some st) JUndefined))
        | _ \<Rightarrow> OtherError ''TypeError'' ''Cannot read properties of undefined'')
     else if error_name error = ''TimeoutError'' then
       Sdk (new_ApiException (JStr ''Request timeout'') None JUndefined)
     else if error_name error = ''NetworkError'' then
       Sdk (new_ApiException (JStr ''Network error'') None JUndefined)
     else
       (case error of
          Sdk e \<Rightarrow> Sdk e
        | _ \<Rightarrow> Sdk (new_ApiException (JStr (''Unexpected error: '' @ error_message error))
                   None JUndefined)))"

section \<open>Base64\<close>

text \<open>
  \<open>Buffer.from(s).toString('base64')\<close>: the UTF-8 bytes of the text (a text is a list of
  characters below 256), in the standard alphabet with \<open>=\<close> padding.
\<close>

definition utf8_bytes :: "string \<Rightarrow> nat list" where
  "utf8_bytes s =
     concat (map (\<lambda>c. let n = of_char c
                       in if n < 128 then [n] else [192 + n div 64, 128 + n mod 64]) s)"

definition b64_char :: "nat \<Rightarrow> char" where
  "b64_char n =
     (''ABCDEFGHIJKLMNOPQRSTUVWXYZabcdefghijklmnopqrstuvwxyz0123456789+/'') ! (n mod 64)"

fun base64_bytes :: "nat list \<Rightarrow> string" where
  "base64_bytes [] = []"
| "base64_bytes [a] = [b64_char (a div 4), b64_char ((a mod 4) * 16), CHR ''='', CHR ''='']"
| "base64_bytes [a, b] =
     [b64_char (a div 4), b64_char ((a mod 4) * 16 + b div 16), b64_char ((b mod 16) * 4),
      CHR ''='']"
| "base64_bytes (a # b # c # rest) =
     [b64_char (a div 4), b64_char ((a mod 4) * 16 + b div 16),
      b64_char ((b mod 16) * 4 + c div 64), b64_char (c mod 64)] @ base64_bytes rest"

definition base64 :: "string \<Rightarrow> string" where
  "base64 s = base64_bytes (utf8_bytes s)"

section \<open>The client\<close>

text \<open>
  \<open>RequestOptions\<close> of the caller, the \<open>Options\<close> handed to the HTTP backend (ky), the
  backend instance made by \<open>ky.create\<close>, and the client object. \<open>form\<close> is the \<open>body\<close>
  option of the backend; an absent \<open>json\<close> is \<open>JUndefined\<close>.
\<close>

record RequestOptions =
  req_headers :: "(string \<rightharpoonup> string) option"
  req_timeout :: "nat option"
  retries :: "nat option"

datatype file_content = TextContent string | BufferContent "nat list"

record FileUpload =
  field :: string
  filename :: string
  content :: file_content
  contentType :: "string option"

datatype form_value = FormText string | FormBlob file_content string string

record Options =
  searchParams :: "(string \<times> string) list option"
  json :: jsval
  form :: "(string \<times> form_value) list option"
  headers :: "(string \<rightharpoonup> string) option"
  timeout :: "nat option"
  retry :: "nat option"

record KyInstance =
  prefixUrl :: string
  inst_timeout :: nat
  retry_limit :: nat
  retry_methods :: "string list"
  retry_statusCodes :: "nat list"
  inst_headers :: "string \<rightharpoonup> string"

record BasicAuthCredentials =
  username :: string
  token :: string

record SmtpClient =
  kyInstance :: KyInstance
  basicAuth :: "BasicAuthCredentials option"
  baseUrl :: string

text \<open>\<open>s.replace(/\/$/, '')\<close>: one slash at the very end of the text is removed.\<close>

definition strip_trailing_slash :: "string \<Rightarrow> string" where
  "strip_trailing_slash s = (if s \<noteq> [] \<and> last s = CHR ''/'' then butlast s else s)"

definition ky_create :: "string \<Rightarrow> KyInstance" where
  "ky_create prefix =
     \<lparr>prefixUrl = prefix, inst_timeout = 30000, retry_limit = 3,
      retry_methods = [''get'', ''put'', ''delete'', ''head'', ''trace'', ''options''],
      retry_statusCodes = [408, 413, 429, 500, 502, 503, 504],
      inst_headers = [''User-Agent'' \<mapsto> ''@kirimemail/smtp-sdk/1.0.0'',
                      ''Accept'' \<mapsto> ''application/json'',
                      ''Content-Type'' \<mapsto> ''application/json'']\<rparr>"

text \<open>
  The constructor. An omitted argument is \<open>None\<close>; \<open>username && token\<close> holds when both
  are given and neither is the empty text.
\<close>

definition new_SmtpClient :: "string option \<Rightarrow> string option \<Rightarrow> string option \<Rightarrow> SmtpClient" where
  "new_SmtpClient user tok base =
     (let b = strip_trailing_slash
                (case base of None \<Rightarrow> ''https://smtp-app.kirim.email'' | Some u \<Rightarrow> u)
      in \<lparr>kyInstance = ky_create b,
          basicAuth = (case (user, tok) of
                         (Some u, Some t) \<Rightarrow>
                           if u \<noteq> [] \<and> t \<noteq> [] then Some \<lparr>username = u, token = t\<rparr> else None
                       | _ \<Rightarrow> None),
          baseUrl = b\<rparr>)"


definition getBaseUrl :: "SmtpClient \<Rightarrow> string" where
  "getBaseUrl c = baseUrl c"


definition hasBasicAuth :: "SmtpClient \<Rightarrow> bool" where
  "hasBasicAuth c = (basicAuth c \<noteq> None)"

text \<open>\<open>addAuthentication\<close>: a copy of the caller's headers, with the Basic header set on top
  when credentials are held.\<close>

definition addAuthentication :: "SmtpClient \<Rightarrow> Options \<Rightarrow> string \<Rightarrow> Options" where
  "addAuthentication c options endpoint =
     (let hs = (case headers options of None \<Rightarrow> Map.empty | Some h \<Rightarrow> h);
          hs' = (case basicAuth c of
                   None \<Rightarrow> hs
                 | Some a \<Rightarrow>
                     hs(''Authorization'' \<mapsto> ''Basic '' @ base64 (username a @ '':'' @ token a)))
      in options\<lparr>headers := Some hs'\<rparr>)"

section \<open>Requests\<close>

text \<open>
  The HTTP backend is a parameter: called with the instance, the input path, the method
  and the options, it either resolves with a response or rejects with a thrown value.
  The backend of the source (ky) rejects with \<open>HTTPError\<close> for every response whose
  status is not 2xx.
\<close>

datatype ky_outcome = Resolved response | Rejected thrown

type_synonym backend = "KyInstance \<Rightarrow> string \<Rightarrow> string \<Rightarrow> Options \<Rightarrow> ky_outcome"

definition makeRequest :: "SmtpClient \<Rightarrow> backend \<Rightarrow> string \<Rightarrow> string \<Rightarrow> Options \<Rightarrow> thrown + jsval" where
  "makeRequest c ky method endpoint options =
     (let authenticatedOptions = addAuthentication c options endpoint
      in case ky (kyInstance c) endpoint method authenticatedOptions of
           Rejected error \<Rightarrow> Inl (handleError error endpoint)
         | Resolved response \<Rightarrow>
             (case response_json response of
                Inl (n, m) \<Rightarrow> Inl (handleError (OtherError n m) endpoint)
              | Inr p \<Rightarrow>
                  (case await p of
                     Inl error \<Rightarrow> Inl (handleError error endpoint)
                   | Inr data \<Rightarrow>
                       if ok response then Inr data
                       else Inl (handleError
                                  (Sdk (new_ApiException
                                     (JStr (''Unexpected status code: '' @ show_nat (status response)))
                                     (Some (status response)) JUndefined))
                                  endpoint))))"

text \<open>\<open>new URLSearchParams(record)\<close>: one pair per key of the record, in order, the value
  converted by \<open>String\<close>.\<close>

definition URLSearchParams :: "(string \<times> jsval) list \<Rightarrow> (string \<times> string) list" where
  "URLSearchParams params = map (\<lambda>(k, v). (k, to_string v)) params"

definition opt_headers :: "RequestOptions option \<Rightarrow> (string \<rightharpoonup> string) option" where
  "opt_headers options = (case options of None \<Rightarrow> None | Some ro \<Rightarrow> req_headers ro)"

definition opt_timeout :: "RequestOptions option \<Rightarrow> nat option" where
  "opt_timeout options = (case options of None \<Rightarrow> None | Some ro \<Rightarrow> req_timeout ro)"

definition opt_retries :: "RequestOptions option \<Rightarrow> nat option" where
  "opt_retries options = (case options of None \<Rightarrow> None | Some ro \<Rightarrow> retries ro)"

text \<open>The \<open>kyOptions\<close> each public method builds.\<close>

definition get_kyOptions :: "(string \<times> jsval) list option \<Rightarrow> RequestOptions option \<Rightarrow> Options" where
  "get_kyOptions params options =
     \<lparr>searchParams = map_option URLSearchParams params, json = JUndefined, form = None,
      headers = opt_headers options, timeout = opt_timeout options, retry = opt_retries options\<rparr>"

definition json_kyOptions :: "jsval \<Rightarrow> RequestOptions option \<Rightarrow> Options" where
  "json_kyOptions data options =
     \<lparr>searchParams = None, json = data, form = None,
      headers = opt_headers options, timeout = opt_timeout options, retry = opt_retries options\<rparr>"

definition form_fields :: "(string \<times> jsval) list \<Rightarrow> (string \<times> form_value) list" where
  "form_fields data =
     concat (map (\<lambda>(key, v).
        case v of
          JArr items \<Rightarrow> map (\<lambda>item. (key @ ''[]'', FormText (to_string item))) items
        | _ \<Rightarrow> [(key, FormText (to_string v))]) data)"

definition form_file :: "FileUpload \<Rightarrow> string \<times> form_value" where
  "form_file file =
     (field file,
      FormBlob (content file)
        (case contentType file of
           Some t \<Rightarrow> if t \<noteq> [] then t
                     else (case content file of TextContent x \<Rightarrow> ''text/plain''
                           | BufferContent x \<Rightarrow> ''application/octet-stream'')
         | None \<Rightarrow> (case content file of TextContent x \<Rightarrow> ''text/plain''
                     | BufferContent x \<Rightarrow> ''application/octet-stream''))
        (filename file))"

definition postMultipart_kyOptions ::
  "(string \<times> jsval) list option \<Rightarrow> FileUpload list option \<Rightarrow> RequestOptions option \<Rightarrow> Options" where
  "postMultipart_kyOptions data files options =
     \<lparr>searchParams = None, json = JUndefined,
      form = Some ((case data of None \<Rightarrow> [] | Some d \<Rightarrow> form_fields d) @
                   (case files of None \<Rightarrow> [] | Some fs \<Rightarrow> map form_file fs)),
      headers = Some (case opt_headers options of None \<Rightarrow> Map.empty | Some h \<Rightarrow> h),
      timeout = opt_timeout options, retry = opt_retries options\<rparr>"

definition stream_kyOptions :: "(string \<times> jsval) list option \<Rightarrow> RequestOptions option \<Rightarrow> Options" where
  "stream_kyOptions params options =
     \<lparr>searchParams = map_option URLSearchParams params, json = JUndefined, form = None,
      headers = opt_headers options,
      timeout = Some (case opt_timeout options of
                        None \<Rightarrow> 60000
                      | Some t \<Rightarrow> if t \<noteq> 0 then t else 60000),
      retry = None\<rparr>"

definition get ::
  "SmtpClient \<Rightarrow> backend \<Rightarrow> string \<Rightarrow> (string \<times> jsval) list option \<Rightarrow> RequestOptions option
     \<Rightarrow> thrown + jsval" where
  "get c ky endpoint params options =
     makeRequest c ky ''GET'' endpoint (get_kyOptions params options)"

definition post ::
  "SmtpClient \<Rightarrow> backend \<Rightarrow> string \<Rightarrow> jsval \<Rightarrow> RequestOptions option \<Rightarrow> thrown + jsval" where
  "post c ky endpoint data options =
     makeRequest c ky ''POST'' endpoint (json_kyOptions data options)"

definition postMultipart ::
  "SmtpClient \<Rightarrow> backend \<Rightarrow> string \<Rightarrow> (string \<times> jsval) list option \<Rightarrow> FileUpload list option
     \<Rightarrow> RequestOptions option \<Rightarrow> thrown + jsval" where
  "postMultipart c ky endpoint data files options =
     makeRequest c ky ''POST'' endpoint (postMultipart_kyOptions data files options)"

definition put ::
  "SmtpClient \<Rightarrow> backend \<Rightarrow> string \<Rightarrow> jsval \<Rightarrow> RequestOptions option \<Rightarrow> thrown + jsval" where
  "put c ky endpoint data options =
     makeRequest c ky ''PUT'' endpoint (json_kyOptions data options)"

definition delete ::
  "SmtpClient \<Rightarrow> backend \<Rightarrow> string \<Rightarrow> jsval \<Rightarrow> RequestOptions option \<Rightarrow> thrown + jsval" where
  "delete c ky endpoint data options =
     makeRequest c ky ''DELETE'' endpoint (json_kyOptions data options)"

section \<open>Streaming\<close>

text \<open>
  A text is a list of characters below 256. A chunk is the text that
  \<open>decoder.decode(value, { stream: true })\<close> returns for one read. \<open>trim\<close> removes the
  white space of JavaScript at both ends: tab, line feed, vertical tab, form feed,
  carriage return, space and no-break space.
\<close>

definition js_space :: "char \<Rightarrow> bool" where
  "js_space c = (of_char c \<in> {9, 10, 11, 12, 13, 32, 160 :: nat})"

definition js_trim :: "string \<Rightarrow> string" where
  "js_trim s = rev (dropWhile js_space (rev (dropWhile js_space s)))"

definition startsWith :: "string \<Rightarrow> string \<Rightarrow> bool" where
  "startsWith s p = (take (length p) s = p)"

text \<open>\<open>s.split('\n')\<close>: the pieces between line feeds, one more than there are line feeds.\<close>

fun split_nl :: "string \<Rightarrow> string list" where
  "split_nl [] = [[]]"
| "split_nl (c # cs) =
     (if c = CHR 0x0A then [] # split_nl cs
      else (case split_nl cs of [] \<Rightarrow> [[c]] | l # ls \<Rightarrow> (c # l) # ls))"

text \<open>
  The body of \<open>for (const line of lines)\<close>: the records one line yields (none or one).
  \<open>parse\<close> is \<open>JSON.parse\<close>, \<open>None\<close> where it throws.
\<close>

definition process_line :: "(string \<Rightarrow> 'r option) \<Rightarrow> string \<Rightarrow> 'r list" where
  "process_line parse line =
     (if js_trim line \<noteq> [] then
        (if startsWith line ''data: '' then
           (let data = drop 6 line
            in if data \<noteq> ''[DONE]'' then
                 (case parse data of Some parsed \<Rightarrow> [parsed] | None \<Rightarrow> [])
               else [])
         else (case parse line of Some parsed \<Rightarrow> [parsed] | None \<Rightarrow> []))
      else [])"

text \<open>
  The \<open>while (true)\<close> loop over the reader: the chunks still to come are the list, the
  end of the list is \<open>done\<close>. The result is the sequence of yielded records.
\<close>

fun read_loop :: "(string \<Rightarrow> 'r option) \<Rightarrow> string \<Rightarrow> string list \<Rightarrow> 'r list" where
  "read_loop parse buffer [] = []"
| "read_loop parse buffer (v # rest) =
     (let lines = split_nl (buffer @ v);
          buffer' = (if lines = [] then [] else last lines);
          lines' = butlast lines
      in concat (map (process_line parse) lines') @ read_loop parse buffer' rest)"

text \<open>
  \<open>stream\<close>: the records yielded, in order, and how the generator ends: \<open>None\<close> when it
  returns, \<open>Some e\<close> when it throws \<open>e\<close>.
\<close>

definition stream ::
  "SmtpClient \<Rightarrow> backend \<Rightarrow> (string \<Rightarrow> 'r option) \<Rightarrow> string \<Rightarrow> (string \<times> jsval) list option
     \<Rightarrow> RequestOptions option \<Rightarrow> 'r list \<times> thrown option" where
  "stream c ky parse endpoint params options =
     (let authenticatedOptions = addAuthentication c (stream_kyOptions params options) endpoint
      in case ky (kyInstance c) endpoint ''get'' authenticatedOptions of
           Rejected error \<Rightarrow> ([], Some (handleError error endpoint))
         | Resolved response \<Rightarrow>
             (case body response of
                None \<Rightarrow>
                  ([], Some (handleError
                              (Sdk (new_ApiException (JStr ''Response body is empty'') None JUndefined))
                              endpoint))
              | Some (chunks, failure) \<Rightarrow>
                  (read_loop parse [] chunks,
                   (case failure of
                      None \<Rightarrow> None
                    | Some (n, m) \<Rightarrow> Some (handleError (OtherError n m) endpoint)))))"

section \<open>JSON texts\<close>

text \<open>
  \<open>JSON.parse\<close> belongs to the JavaScript runtime, so the decoder above takes it as the
  parameter \<open>parse\<close>. For runs on concrete chunks, \<open>JSON_parse\<close> implements the JSON
  grammar for objects, arrays, texts without escapes, integers and the three literals;
  a text with an escape, a fraction or an exponent is outside this fragment and gives
  \<open>None\<close>. The fuel is the length of the text plus one: every nested call is made on a
  text that is at least one character shorter.
\<close>

definition json_ws :: "char \<Rightarrow> bool" where
  "json_ws c = (of_char c \<in> {9, 10, 13, 32 :: nat})"

definition skip_ws :: "string \<Rightarrow> string" where
  "skip_ws s = dropWhile json_ws s"

definition is_digit :: "char \<Rightarrow> bool" where
  "is_digit c = (48 \<le> (of_char c :: nat) \<and> (of_char c :: nat) \<le> 57)"

definition digits_value :: "string \<Rightarrow> nat" where
  "digits_value ds = foldl (\<lambda>acc c. 10 * acc + (of_char c - 48)) 0 ds"

definition parse_nat :: "string \<Rightarrow> (nat \<times> string) option" where
  "parse_nat s =
     (let ds = takeWhile is_digit s; r = dropWhile is_digit s
      in if ds = [] \<or> (length ds > 1 \<and> hd ds = CHR ''0'') then None
         else if r \<noteq> [] \<and> hd r \<in> {CHR ''.'', CHR ''e'', CHR ''E''} then None
         else Some (digits_value ds, r))"

definition parse_number :: "string \<Rightarrow> (jsval \<times> string) option" where
  "parse_number s =
     (if s \<noteq> [] \<and> hd s = CHR ''-'' then
        (case parse_nat (tl s) of None \<Rightarrow> None | Some (n, r) \<Rightarrow> Some (JNum (- int n), r))
      else (case parse_nat s of None \<Rightarrow> None | Some (n, r) \<Rightarrow> Some (JNum (int n), r)))"

text \<open>The text after an opening quote, up to the closing quote.\<close>

definition parse_string :: "string \<Rightarrow> (string \<times> string) option" where
  "parse_string s =
     (let str = takeWhile (\<lambda>c. c \<noteq> CHR 0x22) s; r = dropWhile (\<lambda>c. c \<noteq> CHR 0x22) s
      in if r = [] \<or> (\<exists>c \<in> set str. c = CHR 0x5C \<or> (of_char c :: nat) < 32) then None
         else Some (str, tl r))"

definition obj_put :: "(string \<times> jsval) list \<Rightarrow> string \<Rightarrow> jsval \<Rightarrow> (string \<times> jsval) list" where
  "obj_put kvs k v =
     (if k \<in> fst ` set kvs then map (\<lambda>(k', v'). if k' = k then (k', v) else (k', v')) kvs
      else kvs @ [(k, v)])"

fun parse_value :: "nat \<Rightarrow> string \<Rightarrow> (jsval \<times> string) option"
  and parse_elements :: "nat \<Rightarrow> string \<Rightarrow> jsval list \<Rightarrow> (jsval \<times> string) option"
  and parse_members :: "nat \<Rightarrow> string \<Rightarrow> (string \<times> jsval) list \<Rightarrow> (jsval \<times> string) option"
where
  "parse_value 0 s = None"
| "parse_value (Suc n) s =
     (case skip_ws s of
        [] \<Rightarrow> None
      | c # r \<Rightarrow>
          if c = CHR ''{'' then
            (case skip_ws r of
               [] \<Rightarrow> None
             | d # r' \<Rightarrow> if d = CHR ''}'' then Some (JObj [], r') else parse_members n (d # r') [])
          else if c = CHR ''['' then
            (case skip_ws r of
               [] \<Rightarrow> None
             | d # r' \<Rightarrow> if d = CHR '']'' then Some (JArr [], r') else parse_elements n (d # r') [])
          else if c = CHR 0x22 then
            (case parse_string r of None \<Rightarrow> None | Some (str, r') \<Rightarrow> Some (JStr str, r'))
          else if take 4 (c # r) = ''true'' then Some (JBool True, drop 4 (c # r))
          else if take 5 (c # r) = ''false'' then Some (JBool False, drop 5 (c # r))
          else if take 4 (c # r) = ''null'' then Some (JNull, drop 4 (c # r))
          else parse_number (c # r))"
| "parse_elements 0 s acc = None"
| "parse_elements (Suc n) s acc =
     (case parse_value n s of
        None \<Rightarrow> None
      | Some (v, r) \<Rightarrow>
          (case skip_ws r of
             [] \<Rightarrow> None
           | d # r' \<Rightarrow>
               if d = CHR '','' then parse_elements n r' (acc @ [v])
               else if d = CHR '']'' then Some (JArr (acc @ [v]), r')
               else None))"
| "parse_members 0 s acc = None"
| "parse_members (Suc n) s acc =
     (case skip_ws s of
        [] \<Rightarrow> None
      | q # r \<Rightarrow>
          if q \<noteq> CHR 0x22 then None
          else
            (case parse_string r of
               None \<Rightarrow> None
             | Some (k, r1) \<Rightarrow>
                 (case skip_ws r1 of
                    [] \<Rightarrow> None
                  | col # r2 \<Rightarrow>
                      if col \<noteq> CHR '':'' then None
                      else
                        (case parse_value n r2 of
                           None \<Rightarrow> None
                         | Some (v, r3) \<Rightarrow>
                             (case skip_ws r3 of
                                [] \<Rightarrow> None
                              | d # r4 \<Rightarrow>
                                  if d = CHR '','' then parse_members n r4 (obj_put acc k v)
                                  else if d = CHR ''}'' then Some (JObj (obj_put acc k v), r4)
                                  else None)))))"

definition JSON_parse :: "string \<Rightarrow> jsval option" where
  "JSON_parse s =
     (case parse_value (Suc (length s)) s of
        None \<Rightarrow> None
      | Some (v, r) \<Rightarrow> if skip_ws r = [] then Some v else None)"

section \<open>The HTTP backend\<close>

text \<open>
  The backend library (ky) is not part of the repository. Its documented rule for the
  \<open>prefixUrl\<close> option: without a prefix the input is the URL; with a prefix, an input
  that begins with a slash is refused with an \<open>Error\<close>, and otherwise the prefix, a slash
  when the prefix does not end with one, and the input are concatenated.
\<close>

definition ky_url :: "string \<Rightarrow> string \<Rightarrow> (string \<times> string) + string" where
  "ky_url prefix input =
     (if prefix = [] then Inr input
      else if input \<noteq> [] \<and> hd input = CHR ''/'' then
        Inl (''Error'', ''`input` must not begin with a slash when using `prefixUrl`'')
      else Inr ((if last prefix = CHR ''/'' then prefix else prefix @ ''/'') @ input))"

text \<open>A backend in front of a server that answers each URL with a response: a response
  whose status is not 2xx is thrown as \<open>HTTPError\<close>.\<close>

definition ky_backend :: "(string \<Rightarrow> response) \<Rightarrow> backend" where
  "ky_backend server inst input method options =
     (case ky_url (prefixUrl inst) input of
        Inl (n, m) \<Rightarrow> Rejected (OtherError n m)
      | Inr url \<Rightarrow>
          (let r = server url in if ok r then Resolved r else Rejected (HTTPError r)))"

definition effective_url :: "SmtpClient \<Rightarrow> string \<Rightarrow> (string \<times> string) + string" where
  "effective_url c endpoint = ky_url (prefixUrl (kyInstance c)) endpoint"


section \<open>Retry policy\<close>

datatype attempt = Status nat | NetworkFailure

definition to_lower :: "char \<Rightarrow> char" where
  "to_lower c =
     (if 65 \<le> (of_char c :: nat) \<and> (of_char c :: nat) \<le> 90 then char_of (of_char c + 32 :: nat)
      else c)"

text \<open>
  The retry loop of the Retry Policy (section 4.2 of the specification) is not in the
  repository: the source only configures it, in \<open>ky.create\<close> (\<open>ky_create\<close> above: the
  limit 3, the methods, the status codes), and the loop that repeats a call runs inside
  the HTTP backend. The three definitions below follow the specification. \<open>server i\<close> is
  the result of the underlying HTTP call number \<open>i\<close> (from 0).
\<close>

text \<open>Modelled from the spec: the trigger set of the retry loop, missing from the source:
  the transient status codes (the configured list), and every network-level failure.\<close>

definition transient :: "KyInstance \<Rightarrow> attempt \<Rightarrow> bool" where
  "transient inst a =
     (case a of Status s \<Rightarrow> s \<in> set (retry_statusCodes inst) | NetworkFailure \<Rightarrow> True)"

text \<open>Modelled from the spec: the retry loop, missing from the source, with \<open>k\<close> attempts
  left after this one: a transient result is retried while attempts remain, any other
  result ends the loop at once, and the last result observed is returned unchanged, with
  the number of underlying calls made.\<close>

fun attempts :: "KyInstance \<Rightarrow> (nat \<Rightarrow> attempt) \<Rightarrow> nat \<Rightarrow> nat \<Rightarrow> attempt \<times> nat" where
  "attempts inst server 0 i = (server i, Suc i)"
| "attempts inst server (Suc k) i =
     (if transient inst (server i) then attempts inst server k (Suc i) else (server i, Suc i))"

text \<open>Modelled from the spec: the entry of the retry loop, missing from the source: the
  configured limit is the total number of attempts, the first one included, and a method
  outside the configured list (POST) is tried once.\<close>

definition retry_policy :: "KyInstance \<Rightarrow> string \<Rightarrow> (nat \<Rightarrow> attempt) \<Rightarrow> attempt \<times> nat" where
  "retry_policy inst method server =
     (if map to_lower method \<in> set (retry_methods inst)
      then attempts inst server (retry_limit inst - 1) 0
      else (server 0, 1))"

section \<open>Specification-level definitions\<close>

text \<open>The error taxonomy of the specification (section 7): the class by status code.\<close>

definition spec_kind :: "nat \<Rightarrow> string" where
  "spec_kind st =
     (if st = 400 \<or> st = 422 then ''ValidationException''
      else if st = 401 \<or> st = 403 then ''AuthenticationException''
      else if st = 404 then ''NotFoundException''
      else if st \<ge> 500 then ''ServerException''
      else ''ApiException'')"

text \<open>
  The records of a received text, as the specification of the decoder words them: the
  complete lines (those ended by a line feed), each taken after its \<open>data: \<close> prefix when
  it has one and whole otherwise, and of these the ones that parse, in order.
\<close>

definition complete_lines :: "string \<Rightarrow> string list" where
  "complete_lines text = butlast (split_nl text)"

definition line_payload :: "string \<Rightarrow> string" where
  "line_payload line = (if startsWith line ''data: '' then drop 6 line else line)"

definition spec_records :: "(string \<Rightarrow> 'r option) \<Rightarrow> string \<Rightarrow> 'r list" where
  "spec_records parse text = List.map_filter (\<lambda>l. parse (line_payload l)) (complete_lines text)"

text \<open>A backend that answers every call with a 200 response whose body delivers the given
  chunks and then ends.\<close>

definition feed :: "string list \<Rightarrow> backend" where
  "feed chunks inst input method options =
     Resolved \<lparr>status = 200, statusText = ''OK'', payload = None, body = Some (chunks, None)\<rparr>"

text \<open>A server that answers every URL with the same response.\<close>

definition answer_all :: "response \<Rightarrow> string \<Rightarrow> response" where
  "answer_all r url = r"


text \<open>Underlying HTTP calls whose results are scripted: call number \<open>i\<close> gets the \<open>i\<close>-th
  result of the list, and the last argument once the list is used up.\<close>

definition scripted :: "attempt list \<Rightarrow> attempt \<Rightarrow> nat \<Rightarrow> attempt" where
  "scripted results final i = (if i < length results then results ! i else final)"

section \<open>Error handling\<close>

text \<open>
  For an \<open>HTTPError\<close> the message and the field errors are read from the promise that
  \<open>json()\<close> returns, which has neither property: the class depends on the status only,
  and the message is the fallback text.
\<close>

lemma handleError_HTTPError:
  "handleError (HTTPError r) endpoint =
     (if status r = 400 \<or> status r = 422 then
        Sdk (new_ValidationException (JStr ''Unknown API error'') JUndefined)
      else if status r = 401 \<or> status r = 403 then
        Sdk (new_AuthenticationException (JStr ''Unknown API error''))
      else if status r = 404 then Sdk (new_NotFoundException (JStr ''Unknown API error''))
      else if status r \<ge> 500 then Sdk (new_ServerException (JStr ''Unknown API error''))
      else Sdk (new_ApiException (JStr ''Unknown API error'') (Some (status r)) JUndefined))"
  by (simp add: handleError_def response_json_def js_or_def Let_def)

lemma exception_name [simp]:
  "name (new_ValidationException m e) = ''ValidationException''"
  "name (new_AuthenticationException m) = ''AuthenticationException''"
  "name (new_NotFoundException m) = ''NotFoundException''"
  "name (new_ServerException m) = ''ServerException''"
  "name (new_ApiException m c e) = ''ApiException''"
  by (simp_all add: new_ValidationException_def new_AuthenticationException_def
      new_NotFoundException_def new_ServerException_def new_ApiException_def)

lemma exception_statusCode [simp]:
  "statusCode (new_ValidationException m e) = Some 422"
  "statusCode (new_AuthenticationException m) = Some 401"
  "statusCode (new_NotFoundException m) = Some 404"
  "statusCode (new_ServerException m) = Some 500"
  "statusCode (new_ApiException m c e) = c"
  by (simp_all add: new_ValidationException_def new_AuthenticationException_def
      new_NotFoundException_def new_ServerException_def new_ApiException_def)

lemma exception_message [simp]:
  "message (new_ValidationException (JStr s) e) = s"
  "message (new_AuthenticationException (JStr s)) = s"
  "message (new_NotFoundException (JStr s)) = s"
  "message (new_ServerException (JStr s)) = s"
  "message (new_ApiException (JStr s) c e) = s"
  by (simp_all add: new_ValidationException_def new_AuthenticationException_def
      new_NotFoundException_def new_ServerException_def new_ApiException_def Error_message_def)

lemma exception_errors [simp]:
  "errors (new_ValidationException m e) = e"
  "errors (new_ApiException m c e) = e"
  by (simp_all add: new_ValidationException_def new_ApiException_def)

text \<open>
  C1: when the backend delivers a response with an error status (the backend throws
  \<open>HTTPError\<close> carrying the response), \<open>makeRequest\<close> returns no value: it throws an
  exception whose class is given by the status code alone, as in the taxonomy
  \<open>spec_kind\<close>: 400 and 422 a ValidationException, 401 and 403 an AuthenticationException,
  404 a NotFoundException, 500 and above a ServerException, and any other status a plain
  ApiException that carries the status.
\<close>

theorem makeRequest_classifies_by_status:
  assumes "ky (kyInstance c) endpoint method (addAuthentication c options endpoint)
             = Rejected (HTTPError r)"
  shows "\<exists>e. makeRequest c ky method endpoint options = Inl (Sdk e)
             \<and> name e = spec_kind (status r)
             \<and> (name e = ''ApiException'' \<longrightarrow> statusCode e = Some (status r))"
  using assms
  by (simp add: makeRequest_def Let_def handleError_HTTPError spec_kind_def)

theorem makeRequest_classifies_by_status_witness:
  "\<exists>e. makeRequest (new_SmtpClient None None None)
          (\<lambda>inst input method options.
             Rejected (HTTPError \<lparr>status = 404, statusText = ''Not Found'', payload = None, body = None\<rparr>))
          ''GET'' ''api/domains/nonexistent.com'' (get_kyOptions None None) = Inl (Sdk e)
       \<and> name e = ''NotFoundException''"
  using makeRequest_classifies_by_status
    [of "\<lambda>inst input method options.
           Rejected (HTTPError \<lparr>status = 404, statusText = ''Not Found'', payload = None, body = None\<rparr>)"
        "new_SmtpClient None None None" "''api/domains/nonexistent.com''" "''GET''"
        "get_kyOptions None None"
        "\<lparr>status = 404, statusText = ''Not Found'', payload = None, body = None\<rparr>"]
  by (auto simp add: spec_kind_def)

text \<open>
  C10: the \<open>statusCode\<close> of the thrown exception is a constant of its class: 422 for every
  ValidationException (also for a response status 400), 401 for every
  AuthenticationException (also for 403), 404 for NotFoundException, 500 for every
  ServerException (for any status from 500 on); only the plain ApiException carries the
  status received.
\<close>

theorem statusCode_is_class_constant:
  "\<exists>e. handleError (HTTPError r) endpoint = Sdk e
       \<and> name e = spec_kind (status r)
       \<and> (name e = ''ValidationException'' \<longrightarrow> statusCode e = Some 422)
       \<and> (name e = ''AuthenticationException'' \<longrightarrow> statusCode e = Some 401)
       \<and> (name e = ''NotFoundException'' \<longrightarrow> statusCode e = Some 404)
       \<and> (name e = ''ServerException'' \<longrightarrow> statusCode e = Some 500)
       \<and> (name e = ''ApiException'' \<longrightarrow> statusCode e = Some (status r))
       \<and> (status r = 400 \<or> status r = 403 \<or> status r > 500 \<longrightarrow> statusCode e \<noteq> Some (status r))"
  by (simp add: handleError_HTTPError spec_kind_def)

theorem statusCode_is_class_constant_witness:
  "\<exists>e. handleError (HTTPError \<lparr>status = 400, statusText = ''Bad Request'', payload = None, body = None\<rparr>)
          ''api/domains'' = Sdk e
       \<and> name e = ''ValidationException'' \<and> statusCode e = Some 422"
  using statusCode_is_class_constant
    [of "\<lparr>status = 400, statusText = ''Bad Request'', payload = None, body = None\<rparr>" "''api/domains''"]
  by (auto simp add: spec_kind_def)

text \<open>
  C2: the claim is that the thrown exception carries the message of the server and, for a
  validation error, the map of field errors. On a 404 response with the body
  \<open>{"message": "Domain not found"}\<close> the NotFoundException has the message
  \<open>Unknown API error\<close>, and on a 422 response with a message and an \<open>errors\<close> map the
  ValidationException has the same fallback message and no \<open>errors\<close>.
\<close>

theorem server_message_is_lost:
  "handleError
     (HTTPError \<lparr>status = 404, statusText = ''Not Found'',
                 payload = Some (JObj [(''message'', JStr ''Domain not found'')]), body = None\<rparr>)
     ''api/domains/nonexistent.com''
   = Sdk (new_NotFoundException (JStr ''Unknown API error''))
   \<and> message (new_NotFoundException (JStr ''Unknown API error'')) = ''Unknown API error''
   \<and> handleError
     (HTTPError \<lparr>status = 422, statusText = ''Unprocessable Entity'',
                 payload = Some (JObj [(''message'', JStr ''Validation failed''),
                                       (''errors'', JObj [(''domain'', JArr [JStr ''The domain field is required.''])])]),
                 body = None\<rparr>)
     ''api/domains''
   = Sdk (new_ValidationException (JStr ''Unknown API error'') JUndefined)
   \<and> errors (new_ValidationException (JStr ''Unknown API error'') JUndefined) = JUndefined"
  by (simp add: handleError_HTTPError)

section \<open>The stream decoder\<close>

lemma split_nl_nonempty [simp]: "split_nl s \<noteq> []"
  by (induction s) (auto split: list.splits)

lemma split_nl_no_newline: "CHR 0x0A \<notin> set s \<Longrightarrow> split_nl s = [s]"
  by (induction s) auto

lemma split_nl_pieces: "l \<in> set (split_nl s) \<Longrightarrow> CHR 0x0A \<notin> set l"
  by (induction s arbitrary: l) (auto split: if_splits list.splits)

lemma split_nl_last: "CHR 0x0A \<notin> set (last (split_nl s))"
  using split_nl_pieces [of "last (split_nl s)" s] by simp


lemma split_nl_append:
  "split_nl (a @ b) = butlast (split_nl a) @ split_nl (last (split_nl a) @ b)"
proof (induction a)
  case Nil
  show ?case by simp
next
  case (Cons c cs)
  obtain l ls where X: "split_nl cs = l # ls"
    by (cases "split_nl cs") auto
  show ?case
  proof (cases "c = CHR 0x0A")
    case True
    then show ?thesis using Cons.IH by simp
  next
    case False
    show ?thesis
    proof (cases ls)
      case Nil
      have "split_nl (cs @ b) = split_nl (l @ b)"
        using Cons.IH X Nil by simp
      then show ?thesis using False X Nil by simp
    next
      case (Cons m ms)
      have "split_nl (cs @ b) = l # butlast ls @ split_nl (last ls @ b)"
        using Cons.IH X Cons by simp
      then show ?thesis using False X Cons by simp
    qed
  qed
qed


lemma complete_lines_append:
  "complete_lines (a @ b) = complete_lines a @ complete_lines (last (split_nl a) @ b)"
  unfolding complete_lines_def
  by (simp only: split_nl_append [of a b] butlast_append split_nl_nonempty if_False)

lemma read_loop_lines:
  "CHR 0x0A \<notin> set buffer \<Longrightarrow>
   read_loop parse buffer chunks
     = concat (map (process_line parse) (complete_lines (buffer @ concat chunks)))"
proof (induction chunks arbitrary: buffer)
  case Nil
  then show ?case by (simp add: complete_lines_def split_nl_no_newline)
next
  case (Cons v rest)
  let ?X = "split_nl (buffer @ v)"
  have step: "read_loop parse buffer (v # rest)
          = concat (map (process_line parse) (butlast ?X)) @ read_loop parse (last ?X) rest"
    by (simp add: Let_def)
  have ih: "read_loop parse (last ?X) rest
          = concat (map (process_line parse) (complete_lines (last ?X @ concat rest)))"
    by (rule Cons.IH) (rule split_nl_last)
  have "complete_lines (buffer @ concat (v # rest))
          = complete_lines ((buffer @ v) @ concat rest)"
    by simp
  also have "\<dots> = complete_lines (buffer @ v) @ complete_lines (last ?X @ concat rest)"
    by (rule complete_lines_append)
  finally have cl: "complete_lines (buffer @ concat (v # rest))
          = butlast ?X @ complete_lines (last ?X @ concat rest)"
    by (simp only: complete_lines_def)
  show ?case
    by (simp only: step ih cl map_append concat_append)
qed

lemma stream_feed:
  "stream c (feed chunks) parse endpoint params options
     = (concat (map (process_line parse) (complete_lines (concat chunks))), None)"
proof -
  have "read_loop parse [] chunks
          = concat (map (process_line parse) (complete_lines ([] @ concat chunks)))"
    by (rule read_loop_lines) simp
  then show ?thesis
    by (simp add: stream_def feed_def Let_def)
qed

lemma split_nl_line:
  "CHR 0x0A \<notin> set line \<Longrightarrow> split_nl (line @ CHR 0x0A # t) = line # split_nl t"
  by (induction line) auto

lemma complete_lines_line:
  "CHR 0x0A \<notin> set line \<Longrightarrow> complete_lines (line @ CHR 0x0A # t) = line # complete_lines t"
  by (simp add: complete_lines_def split_nl_line)

lemma last_split_nl_newline: "last (split_nl (t @ [CHR 0x0A])) = []"
proof -
  have "split_nl (last (split_nl t) @ [CHR 0x0A]) = [last (split_nl t), []]"
    using split_nl_line [of "last (split_nl t)" "[]"] split_nl_last [of t] by simp
  then show ?thesis
    by (simp add: split_nl_append [of t "[CHR 0x0A]"])
qed

lemma last_split_nl_complete:
  "t = [] \<or> last t = CHR 0x0A \<Longrightarrow> last (split_nl t) = []"
proof (cases "t = []")
  case True
  then show ?thesis by simp
next
  case False
  assume "t = [] \<or> last t = CHR 0x0A"
  with False have "t = butlast t @ [CHR 0x0A]"
    using append_butlast_last_id [of t] by simp
  then show ?thesis
    using last_split_nl_newline [of "butlast t"] by simp
qed

lemma complete_lines_after_complete:
  "t = [] \<or> last t = CHR 0x0A \<Longrightarrow> complete_lines (t @ b) = complete_lines t @ complete_lines b"
  by (simp add: complete_lines_append last_split_nl_complete)

lemma process_line_done: "process_line parse ''data: [DONE]'' = []"
  by (simp add: process_line_def startsWith_def Let_def)

lemma js_trim_empty: "js_trim s = [] \<longleftrightarrow> (\<forall>c \<in> set s. js_space c)"
proof
  assume "js_trim s = []"
  then have "\<forall>c \<in> set (dropWhile js_space s). js_space c"
    by (simp add: js_trim_def dropWhile_eq_Nil_conv)
  then have "dropWhile js_space s = []"
    using hd_dropWhile [of js_space s] hd_in_set [of "dropWhile js_space s"] by blast
  then show "\<forall>c \<in> set s. js_space c"
    by (simp add: dropWhile_eq_Nil_conv)
next
  assume "\<forall>c \<in> set s. js_space c"
  then have d: "dropWhile js_space s = []"
    by (simp add: dropWhile_eq_Nil_conv)
  show "js_trim s = []"
    by (simp only: js_trim_def d rev.simps dropWhile.simps)
qed

lemma blank_has_no_prefix: "js_trim l = [] \<Longrightarrow> \<not> startsWith l ''data: ''"
proof
  assume b: "js_trim l = []" and s: "startsWith l ''data: ''"
  from s have "CHR ''d'' \<in> set (take (length ''data: '') l)" by (simp add: startsWith_def)
  then have "CHR ''d'' \<in> set l" by (rule in_set_takeD)
  with b have "js_space (CHR ''d'')" by (simp add: js_trim_empty)
  then show False by (simp add: js_space_def)
qed

lemma process_line_spec:
  assumes blank: "\<forall>s. js_trim s = [] \<longrightarrow> parse s = None" and sentinel: "parse ''[DONE]'' = None"
  shows "process_line parse l = (case parse (line_payload l) of Some r \<Rightarrow> [r] | None \<Rightarrow> [])"
proof (cases "js_trim l = []")
  case True
  then have "line_payload l = l" using blank_has_no_prefix [OF True] by (simp add: line_payload_def)
  moreover have "parse l = None" using blank True by simp
  ultimately show ?thesis using True by (simp add: process_line_def)
next
  case False
  show ?thesis
  proof (cases "startsWith l ''data: ''")
    case True
    with False sentinel show ?thesis
      by (simp add: process_line_def line_payload_def Let_def)
  next
    case no: False
    with False show ?thesis
      by (simp add: process_line_def line_payload_def)
  qed
qed

lemma concat_map_filter:
  "concat (map (\<lambda>l. case f l of Some r \<Rightarrow> [r] | None \<Rightarrow> []) ls) = List.map_filter f ls"
  by (induction ls) (simp_all add: map_filter_simps split: option.splits)

lemma map_filter_app:
  "List.map_filter f (xs @ ys) = List.map_filter f xs @ List.map_filter f ys"
  by (simp add: List.map_filter_def)

lemma spec_records_append:
  "t = [] \<or> last t = CHR 0x0A \<Longrightarrow>
   spec_records parse (t @ b) = spec_records parse t @ spec_records parse b"
  by (simp add: spec_records_def complete_lines_after_complete map_filter_app)

lemma spec_records_line:
  "CHR 0x0A \<notin> set line \<Longrightarrow>
   spec_records parse (line @ CHR 0x0A # t)
     = (case parse (line_payload line) of Some r \<Rightarrow> [r] | None \<Rightarrow> []) @ spec_records parse t"
  by (simp add: spec_records_def complete_lines_line map_filter_simps split: option.splits)

lemma space_char_11: "char_of (11 :: nat) = CHR 0x0B"
  by code_simp
lemma space_char_12: "char_of (12 :: nat) = CHR 0x0C"
  by code_simp
lemma space_char_160: "char_of (160 :: nat) = CHR 0xA0"
  by code_simp

lemma blank_first_char:
  assumes "js_space c" "\<not> json_ws c"
  shows "c = CHR 0x0B \<or> c = CHR 0x0C \<or> c = CHR 0xA0"
proof -
  from assms have "(of_char c :: nat) \<in> {11, 12, 160}"
    by (auto simp add: js_space_def json_ws_def)
  then consider "(of_char c :: nat) = 11" | "(of_char c :: nat) = 12" | "(of_char c :: nat) = 160"
    by auto
  then show ?thesis
  proof cases
    case 1
    then have "c = char_of (11 :: nat)" by (metis char_of_char)
    then show ?thesis by (simp only: space_char_11) simp
  next
    case 2
    then have "c = char_of (12 :: nat)" by (metis char_of_char)
    then show ?thesis by (simp only: space_char_12) simp
  next
    case 3
    then have "c = char_of (160 :: nat)" by (metis char_of_char)
    then show ?thesis by (simp only: space_char_160) simp
  qed
qed


lemma parse_number_no_digit:
  "\<not> is_digit c \<Longrightarrow> c \<noteq> CHR ''-'' \<Longrightarrow> parse_number (c # r) = None"
  by (simp add: parse_number_def parse_nat_def)

lemma parse_value_blank_char:
  assumes "skip_ws s = c # r" and "c = CHR 0x0B \<or> c = CHR 0x0C \<or> c = CHR 0xA0"
  shows "parse_value (Suc n) s = None"
proof -
  have nd: "\<not> is_digit c" "c \<noteq> CHR ''-''" "c \<noteq> CHR ''{''" "c \<noteq> CHR ''[''" "c \<noteq> CHR 0x22"
    "c \<noteq> CHR ''t''" "c \<noteq> CHR ''f''" "c \<noteq> CHR ''n''"
    using assms(2) by (auto simp add: is_digit_def)
  have "take 4 (c # r) \<noteq> ''true''" "take 5 (c # r) \<noteq> ''false''" "take 4 (c # r) \<noteq> ''null''"
    using nd by simp_all
  then show ?thesis
    using assms(1) nd by (simp add: parse_number_no_digit)
qed


lemma JSON_parse_blank: "js_trim s = [] \<Longrightarrow> JSON_parse s = None"
proof (cases "skip_ws s")
  case Nil
  then show ?thesis by (simp add: JSON_parse_def)
next
  case (Cons c r)
  assume "js_trim s = []"
  then have all: "\<forall>x \<in> set s. js_space x" by (simp add: js_trim_empty)
  have "c \<in> set (dropWhile json_ws s)" using Cons by (simp add: skip_ws_def)
  then have "c \<in> set s" by (rule set_dropWhileD)
  with all have sp: "js_space c" by simp
  have "\<not> json_ws c"
    using Cons by (simp add: skip_ws_def dropWhile_eq_Cons_conv)
  with sp have "c = CHR 0x0B \<or> c = CHR 0x0C \<or> c = CHR 0xA0"
    by (rule blank_first_char)
  with Cons have "parse_value (Suc (length s)) s = None"
    by (rule parse_value_blank_char)
  then show ?thesis by (simp only: JSON_parse_def option.case)
qed

lemma JSON_parse_a1: "JSON_parse ''{\"a\":1}'' = Some (JObj [(''a'', JNum 1)])"
  by code_simp

lemma JSON_parse_a2: "JSON_parse ''{\"a\":2}'' = Some (JObj [(''a'', JNum 2)])"
  by code_simp

lemma JSON_parse_DONE: "JSON_parse ''[DONE]'' = None"
  by code_simp

lemma JSON_parse_bad: "JSON_parse ''not json'' = None"
  by code_simp

lemma process_line_a1: "process_line JSON_parse ''data: {\"a\":1}'' = [JObj [(''a'', JNum 1)]]"
  by (simp add: process_line_def startsWith_def Let_def js_trim_def js_space_def JSON_parse_a1)

text \<open>
  C3 (as amended): a complete line \<open>data: [DONE]\<close> yields no record and raises no error, and
  it does not end the stream: the lines after it are decoded as usual, so the records of a
  text with the sentinel line are those of the text without it, and the stream ends when
  the reader reports the end of the body. Feeding the chunks \<open>data: {"a":1}\<close>,
  \<open>data: {"a":2}\<close> and \<open>data: [DONE]\<close>, each ended by a line feed, yields exactly the two
  records and then ends.
\<close>

theorem done_sentinel_is_skipped:
  "process_line parse ''data: [DONE]'' = []
   \<and> ((t1 = [] \<or> last t1 = CHR 0x0A) \<and> concat chunks = t1 @ ''data: [DONE]\<newline>'' @ t2 \<longrightarrow>
        stream c (feed chunks) parse endpoint params options
          = stream c (feed [t1 @ t2]) parse endpoint params options)
   \<and> (parse ''{\"a\":1}'' = Some r1 \<and> parse ''{\"a\":2}'' = Some r2 \<longrightarrow>
        stream c (feed [''data: {\"a\":1}\<newline>'', ''data: {\"a\":2}\<newline>'', ''data: [DONE]\<newline>''])
          parse endpoint params options = ([r1, r2], None))"
proof (intro conjI impI)
  show "process_line parse ''data: [DONE]'' = []" by (rule process_line_done)
next
  assume h: "(t1 = [] \<or> last t1 = CHR 0x0A) \<and> concat chunks = t1 @ ''data: [DONE]\<newline>'' @ t2"
  then have t: "t1 = [] \<or> last t1 = CHR 0x0A" by simp
  have "complete_lines (''data: [DONE]'' @ CHR 0x0A # t2) = ''data: [DONE]'' # complete_lines t2"
    by (rule complete_lines_line) simp
  then have "complete_lines (concat chunks)
          = complete_lines t1 @ ''data: [DONE]'' # complete_lines t2"
    using h complete_lines_after_complete [OF t, of "''data: [DONE]\<newline>'' @ t2"] by simp
  moreover have "complete_lines (t1 @ t2) = complete_lines t1 @ complete_lines t2"
    by (rule complete_lines_after_complete [OF t])
  ultimately show "stream c (feed chunks) parse endpoint params options
          = stream c (feed [t1 @ t2]) parse endpoint params options"
    by (simp add: stream_feed process_line_done)
next
  assume p: "parse ''{\"a\":1}'' = Some r1 \<and> parse ''{\"a\":2}'' = Some r2"
  have "complete_lines (concat [''data: {\"a\":1}\<newline>'', ''data: {\"a\":2}\<newline>'', ''data: [DONE]\<newline>''])
          = [''data: {\"a\":1}'', ''data: {\"a\":2}'', ''data: [DONE]'']"
    by (simp add: complete_lines_def)
  moreover have "process_line parse ''data: {\"a\":1}'' = [r1]"
    using p by (simp add: process_line_def startsWith_def Let_def js_trim_def js_space_def)
  moreover have "process_line parse ''data: {\"a\":2}'' = [r2]"
    using p by (simp add: process_line_def startsWith_def Let_def js_trim_def js_space_def)
  ultimately show "stream c (feed [''data: {\"a\":1}\<newline>'', ''data: {\"a\":2}\<newline>'', ''data: [DONE]\<newline>''])
          parse endpoint params options = ([r1, r2], None)"
    by (simp only: stream_feed) (simp add: process_line_done)
qed

theorem done_sentinel_is_skipped_witness:
  "stream (new_SmtpClient (Some ''testuser'') (Some ''testtoken'') None)
     (feed [''data: {\"a\":1}\<newline>data: [DONE]\<newline>'', ''data: {\"a\":2}\<newline>''])
     JSON_parse ''api/domains/example.com/log'' None None
   = stream (new_SmtpClient (Some ''testuser'') (Some ''testtoken'') None)
     (feed [''data: {\"a\":1}\<newline>data: {\"a\":2}\<newline>''])
     JSON_parse ''api/domains/example.com/log'' None None
   \<and> stream (new_SmtpClient (Some ''testuser'') (Some ''testtoken'') None)
     (feed [''data: {\"a\":1}\<newline>'', ''data: {\"a\":2}\<newline>'', ''data: [DONE]\<newline>''])
     JSON_parse ''api/domains/example.com/log'' None None
   = ([JObj [(''a'', JNum 1)], JObj [(''a'', JNum 2)]], None)"
proof -
  have h2: "(''data: {\"a\":1}\<newline>'' = [] \<or> last ''data: {\"a\":1}\<newline>'' = CHR 0x0A)
      \<and> concat [''data: {\"a\":1}\<newline>data: [DONE]\<newline>'', ''data: {\"a\":2}\<newline>'']
          = ''data: {\"a\":1}\<newline>'' @ ''data: [DONE]\<newline>'' @ ''data: {\"a\":2}\<newline>''"
    by simp
  have h3: "JSON_parse ''{\"a\":1}'' = Some (JObj [(''a'', JNum 1)])
      \<and> JSON_parse ''{\"a\":2}'' = Some (JObj [(''a'', JNum 2)])"
    by (simp add: JSON_parse_a1 JSON_parse_a2)
  show ?thesis
    using done_sentinel_is_skipped
      [of JSON_parse "''data: {\"a\":1}\<newline>''"
          "[''data: {\"a\":1}\<newline>data: [DONE]\<newline>'', ''data: {\"a\":2}\<newline>'']"
          "''data: {\"a\":2}\<newline>''"
          "new_SmtpClient (Some ''testuser'') (Some ''testtoken'') None"
          "''api/domains/example.com/log''" None None
          "JObj [(''a'', JNum 1)]" "JObj [(''a'', JNum 2)]"]
      h2 h3
    by simp
qed

text \<open>
  The claim as stated, that no record is yielded from what follows the sentinel, fails: a
  record that arrives after the sentinel line is yielded.
\<close>

theorem records_after_done_counterexample:
  "stream (new_SmtpClient (Some ''testuser'') (Some ''testtoken'') None)
     (feed [''data: [DONE]\<newline>'', ''data: {\"a\":1}\<newline>''])
     JSON_parse ''api/domains/example.com/log'' None None
   = ([JObj [(''a'', JNum 1)]], None)"
proof -
  have "complete_lines (concat [''data: [DONE]\<newline>'', ''data: {\"a\":1}\<newline>''])
          = [''data: [DONE]'', ''data: {\"a\":1}'']"
    by (simp add: complete_lines_def)
  then show ?thesis
    by (simp only: stream_feed) (simp add: process_line_done process_line_a1)
qed

text \<open>
  C4: the decoder keeps the incomplete last line of a chunk in its buffer and parses it once
  its line feed has arrived: the records of a chunk sequence are those of the same text
  arriving in one chunk; nothing is yielded before a line feed has arrived; a line that
  yields the record \<open>r\<close> when whole yields exactly \<open>r\<close> however it is split into chunks;
  the chunks \<open>data: {"a":\<close> and \<open>1}\<close> with its line feed yield the one record.
\<close>

theorem stream_reassembles_split_lines:
  "stream c (feed chunks) parse endpoint params options
     = stream c (feed [concat chunks]) parse endpoint params options
   \<and> (CHR 0x0A \<notin> set (concat chunks) \<longrightarrow>
        stream c (feed chunks) parse endpoint params options = ([], None))
   \<and> (concat chunks = line @ [CHR 0x0A] \<and> CHR 0x0A \<notin> set line \<and> process_line parse line = [r] \<longrightarrow>
        stream c (feed chunks) parse endpoint params options = ([r], None))
   \<and> (parse ''{\"a\":1}'' = Some r1 \<longrightarrow>
        stream c (feed [''data: {\"a\":'', ''1}\<newline>'']) parse endpoint params options = ([r1], None))"
proof (intro conjI impI)
  show "stream c (feed chunks) parse endpoint params options
     = stream c (feed [concat chunks]) parse endpoint params options"
    by (simp add: stream_feed)
next
  assume "CHR 0x0A \<notin> set (concat chunks)"
  then have "split_nl (concat chunks) = [concat chunks]"
    by (rule split_nl_no_newline)
  then have "complete_lines (concat chunks) = []"
    by (simp add: complete_lines_def)
  then show "stream c (feed chunks) parse endpoint params options = ([], None)"
    by (simp only: stream_feed) simp
next
  assume "concat chunks = line @ [CHR 0x0A] \<and> CHR 0x0A \<notin> set line \<and> process_line parse line = [r]"
  then have a: "concat chunks = line @ CHR 0x0A # []" and b: "CHR 0x0A \<notin> set line"
    and d: "process_line parse line = [r]" by simp_all
  have "complete_lines (concat chunks) = [line]"
    using complete_lines_line [OF b, of "[]"] a by (simp add: complete_lines_def)
  then show "stream c (feed chunks) parse endpoint params options = ([r], None)"
    using d by (simp add: stream_feed)
next
  assume p: "parse ''{\"a\":1}'' = Some r1"
  have "complete_lines (concat [''data: {\"a\":'', ''1}\<newline>'']) = [''data: {\"a\":1}'']"
    by (simp add: complete_lines_def)
  moreover have "process_line parse ''data: {\"a\":1}'' = [r1]"
    using p by (simp add: process_line_def startsWith_def Let_def js_trim_def js_space_def)
  ultimately show "stream c (feed [''data: {\"a\":'', ''1}\<newline>'']) parse endpoint params options
      = ([r1], None)"
    by (simp only: stream_feed) simp
qed

theorem stream_reassembles_split_lines_witness:
  "stream (new_SmtpClient (Some ''testuser'') (Some ''testtoken'') None)
     (feed [''data: {\"a\":'', ''1}\<newline>'']) JSON_parse ''api/domains/example.com/log'' None None
     = ([JObj [(''a'', JNum 1)]], None)
   \<and> stream (new_SmtpClient (Some ''testuser'') (Some ''testtoken'') None)
     (feed [''data: {\"a\":'', ''1}\<newline>'']) JSON_parse ''api/domains/example.com/log'' None None
     = stream (new_SmtpClient (Some ''testuser'') (Some ''testtoken'') None)
     (feed [''data: {\"a\":1}\<newline>'']) JSON_parse ''api/domains/example.com/log'' None None
   \<and> stream (new_SmtpClient (Some ''testuser'') (Some ''testtoken'') None)
     (feed [''data: {\"a\":'']) JSON_parse ''api/domains/example.com/log'' None None
     = ([], None)"
proof -
  have h3: "concat [''data: {\"a\":'', ''1}\<newline>''] = ''data: {\"a\":1}'' @ [CHR 0x0A]
      \<and> CHR 0x0A \<notin> set ''data: {\"a\":1}''
      \<and> process_line JSON_parse ''data: {\"a\":1}'' = [JObj [(''a'', JNum 1)]]"
    by (simp add: process_line_a1)
  have h2: "CHR 0x0A \<notin> set (concat [''data: {\"a\":''])" by simp
  show ?thesis
    using stream_reassembles_split_lines
      [of "new_SmtpClient (Some ''testuser'') (Some ''testtoken'') None"
          "[''data: {\"a\":'', ''1}\<newline>'']" JSON_parse "''api/domains/example.com/log''" None None
          "''data: {\"a\":1}''" "JObj [(''a'', JNum 1)]" "JObj [(''a'', JNum 1)]"]
      stream_reassembles_split_lines
      [of "new_SmtpClient (Some ''testuser'') (Some ''testtoken'') None"
          "[''data: {\"a\":'']" JSON_parse "''api/domains/example.com/log''" None None
          "''data: {\"a\":1}''" "JObj [(''a'', JNum 1)]" "JObj [(''a'', JNum 1)]"]
      h3 h2 JSON_parse_a1
    by simp
qed

text \<open>
  C5: for a \<open>parse\<close> that, like \<open>JSON.parse\<close>, rejects a text of white space only and the
  text \<open>[DONE]\<close>, the stream yields exactly the records of \<open>spec_records\<close>: the complete
  lines, after their \<open>data: \<close> prefix when present and whole otherwise, that parse, in the
  order received, and it ends without an error. A complete line that does not parse
  leaves the records before and after it as they are.
\<close>

theorem stream_yields_parseable_lines:
  assumes "\<forall>s. js_trim s = [] \<longrightarrow> parse s = None" and "parse ''[DONE]'' = None"
  shows "stream c (feed chunks) parse endpoint params options
           = (spec_records parse (concat chunks), None)
         \<and> ((t1 = [] \<or> last t1 = CHR 0x0A) \<and> CHR 0x0A \<notin> set bad \<and> parse (line_payload bad) = None \<longrightarrow>
              spec_records parse (t1 @ bad @ CHR 0x0A # t2)
                = spec_records parse t1 @ spec_records parse t2)"
proof (intro conjI impI)
  have "(\<lambda>l. process_line parse l) = (\<lambda>l. case parse (line_payload l) of Some r \<Rightarrow> [r] | None \<Rightarrow> [])"
    using process_line_spec [OF assms] by auto
  then have "concat (map (process_line parse) (complete_lines (concat chunks)))
               = spec_records parse (concat chunks)"
    by (simp add: spec_records_def concat_map_filter)
  then show "stream c (feed chunks) parse endpoint params options
           = (spec_records parse (concat chunks), None)"
    by (simp only: stream_feed)
next
  assume h: "(t1 = [] \<or> last t1 = CHR 0x0A) \<and> CHR 0x0A \<notin> set bad \<and> parse (line_payload bad) = None"
  then have "spec_records parse (t1 @ bad @ CHR 0x0A # t2)
          = spec_records parse t1 @ spec_records parse (bad @ CHR 0x0A # t2)"
    using spec_records_append [of t1 parse "bad @ CHR 0x0A # t2"] by blast
  also have "\<dots> = spec_records parse t1 @ spec_records parse t2"
    using h by (simp add: spec_records_line)
  finally show "spec_records parse (t1 @ bad @ CHR 0x0A # t2)
                = spec_records parse t1 @ spec_records parse t2" .
qed

theorem stream_yields_parseable_lines_witness:
  "stream (new_SmtpClient (Some ''testuser'') (Some ''testtoken'') None)
     (feed [''data: {\"a\":1}\<newline>not json\<newline>'', ''{\"a\":2}\<newline>''])
     JSON_parse ''api/domains/example.com/log'' None None
   = ([JObj [(''a'', JNum 1)], JObj [(''a'', JNum 2)]], None)
   \<and> spec_records JSON_parse (''data: {\"a\":1}\<newline>'' @ ''not json'' @ CHR 0x0A # ''{\"a\":2}\<newline>'')
     = spec_records JSON_parse ''data: {\"a\":1}\<newline>'' @ spec_records JSON_parse ''{\"a\":2}\<newline>''"
proof -
  have blank: "\<forall>s. js_trim s = [] \<longrightarrow> JSON_parse s = None"
    by (simp add: JSON_parse_blank)
  have h: "(''data: {\"a\":1}\<newline>'' = [] \<or> last ''data: {\"a\":1}\<newline>'' = CHR 0x0A)
      \<and> CHR 0x0A \<notin> set ''not json'' \<and> JSON_parse (line_payload ''not json'') = None"
    by (simp add: line_payload_def startsWith_def JSON_parse_bad)
  have "complete_lines (concat [''data: {\"a\":1}\<newline>not json\<newline>'', ''{\"a\":2}\<newline>''])
          = [''data: {\"a\":1}'', ''not json'', ''{\"a\":2}'']"
    by (simp add: complete_lines_def)
  then have recs: "spec_records JSON_parse
            (concat [''data: {\"a\":1}\<newline>not json\<newline>'', ''{\"a\":2}\<newline>''])
          = [JObj [(''a'', JNum 1)], JObj [(''a'', JNum 2)]]"
    by (simp add: spec_records_def map_filter_simps line_payload_def startsWith_def
        JSON_parse_a1 JSON_parse_a2 JSON_parse_bad)
  show ?thesis
    using stream_yields_parseable_lines
      [OF blank JSON_parse_DONE,
       of "new_SmtpClient (Some ''testuser'') (Some ''testtoken'') None"
          "[''data: {\"a\":1}\<newline>not json\<newline>'', ''{\"a\":2}\<newline>'']"
          "''api/domains/example.com/log''" None None
          "''data: {\"a\":1}\<newline>''" "''not json''" "''{\"a\":2}\<newline>''"]
      h recs
    by simp
qed

section \<open>Authentication\<close>








section \<open>URLs, query parameters and retries\<close>

lemma strip_trailing_slash_add: "strip_trailing_slash (b @ ''/'') = b"
  by (simp add: strip_trailing_slash_def)

lemma strip_trailing_slash_id: "b = [] \<or> last b \<noteq> CHR ''/'' \<Longrightarrow> strip_trailing_slash b = b"
  by (auto simp add: strip_trailing_slash_def)

lemma prefixUrl_new:
  "prefixUrl (kyInstance (new_SmtpClient user tok (Some b))) = strip_trailing_slash b"
  by (simp add: new_SmtpClient_def Let_def ky_create_def)

lemma makeRequest_leading_slash:
  assumes "prefixUrl (kyInstance c) \<noteq> []"
  shows "makeRequest c (ky_backend server) method (CHR ''/'' # e) options
           = Inl (Sdk (new_ApiException
               (JStr ''Unexpected error: `input` must not begin with a slash when using `prefixUrl`'')
               None JUndefined))"
  using assms
  by (simp add: makeRequest_def Let_def ky_backend_def ky_url_def handleError_def)

text \<open>
  C8: the claim is that the four slash decorations (base URL with or without a trailing
  slash, endpoint with or without a leading slash) give the same URL and the same
  outcome. The base side is normalised: both spellings of the base give the same client.
  The endpoint side is not: the endpoint is handed to the backend as it is, and the
  backend refuses an input that begins with a slash. With the endpoint of
  \<open>MessagesApi.sendMessage\<close>, \<open>/api/domains/example.com/message\<close>, the post throws an
  ApiException before any request is sent, while the same endpoint without the leading
  slash reaches the server and returns its body.
\<close>

theorem leading_slash_endpoint_is_refused:
  "new_SmtpClient None None (Some ''https://smtp.example.com/'')
       = new_SmtpClient None None (Some ''https://smtp.example.com'')
   \<and> effective_url (new_SmtpClient None None (Some ''https://smtp.example.com''))
         ''api/domains/example.com/message''
       = Inr ''https://smtp.example.com/api/domains/example.com/message''
   \<and> effective_url (new_SmtpClient None None (Some ''https://smtp.example.com''))
         ''/api/domains/example.com/message''
       = Inl (''Error'', ''`input` must not begin with a slash when using `prefixUrl`'')
   \<and> post (new_SmtpClient None None (Some ''https://smtp.example.com''))
         (ky_backend (answer_all \<lparr>status = 200, statusText = ''OK'',
                                   payload = Some (JObj [(''success'', JBool True)]), body = None\<rparr>))
         ''api/domains/example.com/message'' (JObj [(''subject'', JStr ''Hello'')]) None
       = Inr (JObj [(''success'', JBool True)])
   \<and> post (new_SmtpClient None None (Some ''https://smtp.example.com''))
         (ky_backend (answer_all \<lparr>status = 200, statusText = ''OK'',
                                   payload = Some (JObj [(''success'', JBool True)]), body = None\<rparr>))
         ''/api/domains/example.com/message'' (JObj [(''subject'', JStr ''Hello'')]) None
       = Inl (Sdk (new_ApiException
                (JStr ''Unexpected error: `input` must not begin with a slash when using `prefixUrl`'')
                None JUndefined))"
  by (simp add: new_SmtpClient_def effective_url_def strip_trailing_slash_def ky_create_def
      ky_url_def post_def makeRequest_def Let_def ky_backend_def answer_all_def ok_def
      response_json_def handleError_def)






lemma transient_default:
  "transient (ky_create prefix) (Status s) \<longleftrightarrow> s \<in> {408, 413, 429, 500, 502, 503, 504}"
  by (auto simp add: transient_def ky_create_def)

lemma attempts_bound: "snd (attempts inst server k i) \<le> Suc (i + k)"
proof (induction k arbitrary: i)
  case 0
  show ?case by simp
next
  case (Suc k)
  show ?case using Suc [of "Suc i"] by simp
qed

lemma method_GET: "map to_lower ''GET'' = ''get''"
  by code_simp
lemma method_POST: "map to_lower ''POST'' = ''post''"
  by code_simp

text \<open>
  C7: with the configuration of the client (limit 3, the idempotent methods, the seven
  status codes), read by \<open>retry_policy\<close> as the specification words it: a GET whose first two
  underlying calls return transient statuses and whose third returns 200 returns that
  result after exactly 3 calls; a GET whose first call returns 400 makes exactly 1 call;
  a POST is never retried; and no request makes more than 3 calls.
\<close>

theorem retry_policy_default:
  "(s1 \<in> {408, 413, 429, 500, 502, 503, 504} \<and> s2 \<in> {408, 413, 429, 500, 502, 503, 504}
      \<and> server 0 = Status s1 \<and> server 1 = Status s2 \<and> server 2 = Status 200 \<longrightarrow>
      retry_policy (ky_create prefix) ''GET'' server = (Status 200, 3))
   \<and> (server 0 = Status 400 \<longrightarrow> retry_policy (ky_create prefix) ''GET'' server = (Status 400, 1))
   \<and> retry_policy (ky_create prefix) ''POST'' server = (server 0, 1)
   \<and> snd (retry_policy (ky_create prefix) method server) \<le> 3
   \<and> kyInstance (new_SmtpClient user tok base)
       = ky_create (strip_trailing_slash
                      (case base of None \<Rightarrow> ''https://smtp-app.kirim.email'' | Some u \<Rightarrow> u))"
proof (intro conjI impI)
  have lim: "retry_limit (ky_create prefix) - 1 = Suc (Suc 0)"
    by (simp add: ky_create_def)
  have get: "map to_lower ''GET'' \<in> set (retry_methods (ky_create prefix))"
    by (simp only: method_GET) (simp add: ky_create_def)
  have post: "map to_lower ''POST'' \<notin> set (retry_methods (ky_create prefix))"
    by (simp only: method_POST) (simp add: ky_create_def)
  have "retry_policy (ky_create prefix) ''GET'' server
          = attempts (ky_create prefix) server (retry_limit (ky_create prefix) - 1) 0"
    using get by (simp only: retry_policy_def if_True)
  then have rg: "retry_policy (ky_create prefix) ''GET'' server
          = attempts (ky_create prefix) server (Suc (Suc 0)) 0"
    by (simp only: lim)
  show "retry_policy (ky_create prefix) ''POST'' server = (server 0, 1)"
    using post by (simp only: retry_policy_def if_False)
  show "snd (retry_policy (ky_create prefix) method server) \<le> 3"
  proof (cases "map to_lower method \<in> set (retry_methods (ky_create prefix))")
    case True
    have b: "snd (attempts (ky_create prefix) server (retry_limit (ky_create prefix) - 1) 0)
               \<le> Suc (0 + (retry_limit (ky_create prefix) - 1))"
      by (rule attempts_bound)
    have k: "Suc (0 + (retry_limit (ky_create prefix) - 1)) = 3"
      by (simp add: ky_create_def)
    have "snd (attempts (ky_create prefix) server (retry_limit (ky_create prefix) - 1) 0) \<le> 3"
      using b unfolding k .
    then show ?thesis
      using True by (simp only: retry_policy_def if_True)
  next
    case False
    then show ?thesis by (simp add: retry_policy_def)
  qed
  show "kyInstance (new_SmtpClient user tok base)
       = ky_create (strip_trailing_slash
                      (case base of None \<Rightarrow> ''https://smtp-app.kirim.email'' | Some u \<Rightarrow> u))"
    by (simp add: new_SmtpClient_def Let_def)
  {
    assume "server 0 = Status 400"
    then show "retry_policy (ky_create prefix) ''GET'' server = (Status 400, 1)"
      by (simp add: rg transient_default)
  }
  assume h: "s1 \<in> {408, 413, 429, 500, 502, 503, 504} \<and> s2 \<in> {408, 413, 429, 500, 502, 503, 504}
      \<and> server 0 = Status s1 \<and> server 1 = Status s2 \<and> server 2 = Status 200"
  then have t: "transient (ky_create prefix) (server 0)" "transient (ky_create prefix) (server (Suc 0))"
      "\<not> transient (ky_create prefix) (server (Suc (Suc 0)))" "server (Suc (Suc 0)) = Status 200"
    by (simp_all add: transient_default numeral_2_eq_2)
  show "retry_policy (ky_create prefix) ''GET'' server = (Status 200, 3)"
    using t by (simp add: rg)
qed

theorem retry_policy_default_witness:
  "retry_policy (ky_create ''https://smtp-app.kirim.email'') ''GET''
     (scripted [Status 503, Status 429] (Status 200)) = (Status 200, 3)
   \<and> retry_policy (ky_create ''https://smtp-app.kirim.email'') ''GET''
     (scripted [] (Status 400)) = (Status 400, 1)"
proof -
  have a: "(503 :: nat) \<in> {408, 413, 429, 500, 502, 503, 504} \<and> (429 :: nat) \<in> {408, 413, 429, 500, 502, 503, 504}
      \<and> scripted [Status 503, Status 429] (Status 200) 0 = Status 503
      \<and> scripted [Status 503, Status 429] (Status 200) 1 = Status 429
      \<and> scripted [Status 503, Status 429] (Status 200) 2 = Status 200"
    by (simp add: scripted_def)
  have b: "scripted [] (Status 400) 0 = Status 400"
    by (simp add: scripted_def)
  show ?thesis
    using retry_policy_default
        [of 503 429 "scripted [Status 503, Status 429] (Status 200)" "''https://smtp-app.kirim.email''"
            "''GET''" None None None]
      retry_policy_default
        [of 503 429 "scripted [] (Status 400)" "''https://smtp-app.kirim.email''"
            "''GET''" None None None]
      a b
    by simp
qed

end
